theory Spec2Isabelle
  imports Main "HOL-Library.Word"
begin

section \<open>The script compiler's polymorphic value interface (compiler.h)\<close>

subsection \<open>Collaborator types\<close>

text \<open>
  Modelled from the spec: the types of ir.h, tree_views.h and module.h, which compiler.h
  includes and which are not among the sources. compiler.h uses them only through
  handles: a \<open>SourceRange\<close> is a span of the script text, a \<open>Value*\<close> is a handle to a
  value owned by the graph (\<open>nullptr\<close> is \<open>None\<close> of \<open>Value option\<close>), an \<open>Attribute\<close> is a
  keyword argument of a call. A graph is a list of operator nodes in emission order
  together with its input and output handles and the next unused handle; the \<open>Method\<close>
  under construction owns one graph.
\<close>

datatype SourceRange = SourceRange (range_start: nat) (range_end: nat)

datatype Value = Value (unique: nat)

datatype Attribute = Attribute (attr_name: string) (attr_value: int)

record Node =
  node_kind :: string
  node_inputs :: "Value list"
  node_attributes :: "Attribute list"
  node_outputs :: "Value list"

record Graph =
  graph_inputs :: "Value list"
  graph_nodes :: "Node list"
  graph_outputs :: "Value list"
  next_unique :: nat

record Method =
  graph :: Graph

text \<open>
  Modelled from the spec: the errors, error_report.h not being among the sources.
  \<open>throw ErrorReport(loc) << ...\<close> in the header raises an exception that carries the
  location and the streamed message. \<open>UnresolvedNameError(name, location)\<close> and
  \<open>ArityMismatchError(expected, actual, location)\<close> are the two further failures of the
  error taxonomy (section 7); they are raised by code whose bodies are not in the header
  (the lowering pass and \<open>BuiltinFunction::call\<close>).
\<close>

datatype Error =
    ErrorReport SourceRange string
  | UnresolvedNameError string SourceRange
  | ArityMismatchError nat nat SourceRange

subsection \<open>VARARG_OUTPUTS and CallsiteDescriptor\<close>

text \<open>
  \<open>size_t\<close> is an unsigned machine integer of some width \<open>'w\<close>; its largest value,
  \<open>std::numeric_limits<size_t>::max()\<close>, is the word with every bit set.
\<close>

definition VARARG_OUTPUTS :: "'w::len word" where
  "VARARG_OUTPUTS = - 1"

text \<open>The record is generic in the type \<open>'n\<close> of \<open>size_t\<close>; the program uses it at a word type.\<close>

record 'n CallsiteDescriptor =
  n_outputs :: 'n
  allow_varargs :: bool

type_synonym size_t = "64 word"

text \<open>
  Modelled from the spec: a method that has just been created; its graph has no input,
  node or output.
\<close>

definition new_graph :: Graph where
  "new_graph = \<lparr>graph_inputs = [], graph_nodes = [], graph_outputs = [], next_unique = 0\<rparr>"

definition new_method :: Method where
  "new_method = \<lparr>graph = new_graph\<rparr>"

subsection \<open>SugaredValue\<close>

text \<open>
  \<open>SugaredValue\<close> is a base class with one pure virtual method (\<open>kind\<close>) and five virtual
  methods that have a default body. A variant (a subclass) is given by its \<open>kind\<close> and by
  the bodies it overrides: \<open>None\<close> stands for "not overridden", \<open>Some f\<close> for the
  overriding body \<open>f\<close>. Every method takes the method under construction by reference and
  may throw, so a body maps the \<open>Method\<close> to a result or an error together with the
  \<open>Method\<close> as it is when the body returns or throws.
\<close>

datatype SugaredValue = SugaredValue
  (kind: string)
  (asValue_override:
    "(SourceRange \<Rightarrow> Method \<Rightarrow> (Error + Value) \<times> Method) option")
  (attr_override:
    "(SourceRange \<Rightarrow> Method \<Rightarrow> string \<Rightarrow> (Error + SugaredValue) \<times> Method) option")
  (asTuple_override:
    "(SourceRange \<Rightarrow> Method \<Rightarrow> (Error + SugaredValue list) \<times> Method) option")
  (call_override:
    "(SourceRange \<Rightarrow> Method \<Rightarrow> Value list \<Rightarrow> Attribute list
       \<Rightarrow> size_t CallsiteDescriptor \<Rightarrow> (Error + Value list) \<times> Method) option")
  (unrolledFor_override:
    "(SourceRange \<Rightarrow> Method \<Rightarrow> (Error + SugaredValue list) \<times> Method) option")

text \<open>Virtual dispatch: the override if there is one, the base class body otherwise.\<close>

definition asValue ::
  "SugaredValue \<Rightarrow> SourceRange \<Rightarrow> Method \<Rightarrow> (Error + Value) \<times> Method" where
  "asValue this loc m =
     (case asValue_override this of
        Some body \<Rightarrow> body loc m
      | None \<Rightarrow> (Inl (ErrorReport loc (kind this @ '' cannot be used as a value'')), m))"

definition attr ::
  "SugaredValue \<Rightarrow> SourceRange \<Rightarrow> Method \<Rightarrow> string \<Rightarrow> (Error + SugaredValue) \<times> Method" where
  "attr this loc m field =
     (case attr_override this of
        Some body \<Rightarrow> body loc m field
      | None \<Rightarrow> (Inl (ErrorReport loc (''attribute lookup is not defined on '' @ kind this)), m))"

definition asTuple ::
  "SugaredValue \<Rightarrow> SourceRange \<Rightarrow> Method \<Rightarrow> (Error + SugaredValue list) \<times> Method" where
  "asTuple this loc m =
     (case asTuple_override this of
        Some body \<Rightarrow> body loc m
      | None \<Rightarrow> (Inl (ErrorReport loc (kind this @ '' cannot be used as tuple'')), m))"

definition call ::
  "SugaredValue \<Rightarrow> SourceRange \<Rightarrow> Method \<Rightarrow> Value list \<Rightarrow> Attribute list
     \<Rightarrow> size_t CallsiteDescriptor \<Rightarrow> (Error + Value list) \<times> Method" where
  "call this loc m inputs attributes cd =
     (case call_override this of
        Some body \<Rightarrow> body loc m inputs attributes cd
      | None \<Rightarrow> (Inl (ErrorReport loc (''cannot call a '' @ kind this)), m))"

definition unrolledFor ::
  "SugaredValue \<Rightarrow> SourceRange \<Rightarrow> Method \<Rightarrow> (Error + SugaredValue list) \<times> Method" where
  "unrolledFor this loc m =
     (case unrolledFor_override this of
        Some body \<Rightarrow> body loc m
      | None \<Rightarrow> (Inl (ErrorReport loc (kind this @ '' is not iterable'')), m))"

text \<open>
  Modelled from the spec: the five capabilities and the error of the taxonomy for a
  missing one. \<open>CapabilityError(kind, missing_operation, location)\<close> is the error report at
  \<open>location\<close> whose message is the text that the base class body of \<open>missing_operation\<close>
  streams for \<open>kind\<close>; it is compared with the base class bodies above.
\<close>

datatype Capability = AsValue | Attr | AsTuple | Call | UnrolledFor

fun capability_message :: "string \<Rightarrow> Capability \<Rightarrow> string" where
  "capability_message k AsValue = k @ '' cannot be used as a value''"
| "capability_message k Attr = ''attribute lookup is not defined on '' @ k"
| "capability_message k AsTuple = k @ '' cannot be used as tuple''"
| "capability_message k Call = ''cannot call a '' @ k"
| "capability_message k UnrolledFor = k @ '' is not iterable''"

definition CapabilityError :: "string \<Rightarrow> Capability \<Rightarrow> SourceRange \<Rightarrow> Error" where
  "CapabilityError k c loc = ErrorReport loc (capability_message k c)"

subsection \<open>SimpleValue\<close>

text \<open>
  \<open>SimpleValue\<close> wraps a graph value. It overrides \<open>kind\<close>, \<open>asValue\<close> and \<open>attr\<close>. The body
  of \<open>SimpleValue::attr\<close> is only declared in the header, so it is a parameter here: the
  attribute lookup of the collaborator, applied to the wrapped value.
\<close>

type_synonym AttributeLookup =
  "Value \<Rightarrow> SourceRange \<Rightarrow> Method \<Rightarrow> string \<Rightarrow> (Error + SugaredValue) \<times> Method"

definition SimpleValue :: "AttributeLookup \<Rightarrow> Value \<Rightarrow> SugaredValue" where
  "SimpleValue simple_attr v =
     SugaredValue ''value''
       (Some (\<lambda>range m. (Inr v, m)))
       (Some (simple_attr v))
       None None None"

subsection \<open>BuiltinFunction\<close>

text \<open>
  Modelled from the spec: the graph builder of the collaborator (section 6), "append
  operator node with given inputs, receive ordered output handles". The handles are the
  next unused ones.
\<close>

definition emitNode ::
  "string \<Rightarrow> Value list \<Rightarrow> Attribute list \<Rightarrow> nat \<Rightarrow> Method \<Rightarrow> Value list \<times> Method" where
  "emitNode k inputs attributes n m =
     (let g = graph m;
          outs = map Value [next_unique g ..< next_unique g + n];
          node = \<lparr>node_kind = k, node_inputs = inputs, node_attributes = attributes,
                  node_outputs = outs\<rparr>
      in (outs, m\<lparr>graph := g\<lparr>graph_nodes := graph_nodes g @ [node],
                                 next_unique := next_unique g + n\<rparr>\<rparr>))"

text \<open>
  Modelled from the spec: the operator table of the collaborator. It resolves the name of
  a built-in together with the inputs of the call (the bound \<open>value\<close> member and the
  arguments) to an operator: the kind of node to emit, the inputs of that node and the
  number of outputs the operator declares. \<open>None\<close> is "no such operator".
\<close>

record Operator =
  op_kind :: string
  op_inputs :: "Value list"
  op_n_outputs :: nat

type_synonym OperatorTable = "string \<Rightarrow> Value option \<Rightarrow> Value list \<Rightarrow> Operator option"

text \<open>
  Modelled from the spec: the body of \<open>BuiltinFunction::call\<close>, which is not in the header.
  It "resolves name + inputs via collaborator operator table, validates against
  CallsiteDescriptor, emits a graph node, returns its outputs", in this order; a mismatch
  of the declared output count with \<open>n_outputs\<close> when \<open>allow_varargs\<close> is false is
  \<open>ArityMismatchError(expected, actual, location)\<close>. The spec names no error for a name
  that the table does not resolve; the model raises an \<open>ErrorReport\<close> at the call site.
\<close>

definition BuiltinFunction_call ::
  "OperatorTable \<Rightarrow> string \<Rightarrow> Value option \<Rightarrow> SourceRange \<Rightarrow> Method \<Rightarrow> Value list
     \<Rightarrow> Attribute list \<Rightarrow> size_t CallsiteDescriptor \<Rightarrow> (Error + Value list) \<times> Method" where
  "BuiltinFunction_call table name val loc m inputs' attributes cd =
     (case table name val inputs' of
        None \<Rightarrow> (Inl (ErrorReport loc (''unknown builtin op: '' @ name)), m)
      | Some operator \<Rightarrow>
          if \<not> allow_varargs cd \<and> unat (n_outputs cd) \<noteq> op_n_outputs operator
          then (Inl (ArityMismatchError (unat (n_outputs cd)) (op_n_outputs operator) loc), m)
          else (case emitNode (op_kind operator) (op_inputs operator) attributes
                       (op_n_outputs operator) m of
                  (outs, m') \<Rightarrow> (Inr outs, m')))"

text \<open>
  \<open>BuiltinFunction\<close> has the members \<open>name\<close> and \<open>value\<close> (\<open>nullptr\<close> by default) and
  overrides \<open>kind\<close> and \<open>call\<close>; \<open>asValue\<close>, \<open>attr\<close>, \<open>asTuple\<close> and \<open>unrolledFor\<close> are
  inherited from the base class.
\<close>

definition BuiltinFunction :: "OperatorTable \<Rightarrow> string \<Rightarrow> Value option \<Rightarrow> SugaredValue" where
  "BuiltinFunction table name val =
     SugaredValue ''builtin'' None None None
       (Some (BuiltinFunction_call table name val))
       None"

section \<open>Lowering definitions to graphs\<close>

text \<open>
  The header declares \<open>Resolver\<close>, \<open>defineMethodsInModule\<close> and \<open>compileFunction\<close>. Their
  bodies, the syntax trees of tree_views.h and the module of module.h are not among the
  sources, so the definitions of this section follow the spec (sections 3, 4.2, 4.3, 4.4,
  5, 6 and 7), for the constructs it names: names, attribute selection, calls, assignment
  to one or several targets, and the returned expressions. Loops and starred targets are
  not part of the syntax modelled here.
\<close>

subsection \<open>Syntax trees\<close>

text \<open>
  Modelled from the spec: the \<open>Def\<close> trees that the parser produces, each node with its
  \<open>SourceRange\<close>. A definition has a name, formal parameters, a body of assignments
  \<open>t1, ..., tN = e\<close> and the expressions it returns.
\<close>

datatype Expr =
    Var SourceRange string
  | Select SourceRange Expr string
  | Apply SourceRange Expr "Expr list" "Attribute list"

fun range_of :: "Expr \<Rightarrow> SourceRange" where
  "range_of (Var loc name) = loc"
| "range_of (Select loc e field) = loc"
| "range_of (Apply loc callee args attributes) = loc"

datatype Stmt = Assign SourceRange "string list" Expr

record Def =
  def_name :: string
  def_params :: "string list"
  def_body :: "Stmt list"
  def_returns :: "Expr list"

subsection \<open>Resolver and environment\<close>

text \<open>
  \<open>Resolver\<close> is \<open>std::function<std::shared_ptr<SugaredValue>(const std::string&)>\<close>; a
  null pointer is "not found". By the spec it is free of side effects.
\<close>

type_synonym Resolver = "string \<Rightarrow> SugaredValue option"

text \<open>
  Modelled from the spec: the state of the lowering of one definition, which is the method
  under construction, the lexical scope (the most recent binding of a name first) and, to
  make invocations of the resolver observable, the names the resolver has been invoked
  with, in order.
\<close>

record Environment =
  env_method :: Method
  env_scope :: "(string \<times> SugaredValue) list"
  resolver_calls :: "string list"

text \<open>Modelled from the spec: binding a name, and a list of names, in the scope.\<close>

definition setSugaredVar :: "string \<Rightarrow> SugaredValue \<Rightarrow> Environment \<Rightarrow> Environment" where
  "setSugaredVar name sv env = env\<lparr>env_scope := (name, sv) # env_scope env\<rparr>"

fun setSugaredVars :: "string list \<Rightarrow> SugaredValue list \<Rightarrow> Environment \<Rightarrow> Environment" where
  "setSugaredVars (name # names) (sv # svs) env = setSugaredVars names svs (setSugaredVar name sv env)"
| "setSugaredVars names svs env = env"

subsection \<open>Expressions\<close>

text \<open>
  Modelled from the spec: the lowering of expressions, whose body is not among the
  sources. A name is looked up in the scope and, only if it is not bound
  there, passed to the resolver by exact name; absence becomes
  \<open>UnresolvedNameError(name, location)\<close>. Attribute selection goes through \<open>attr\<close>, a call
  through \<open>call\<close> with the descriptor of its context, and an expression in value position
  through \<open>asValue\<close>. Subexpressions are lowered in source order (the callee, then the
  arguments from left to right); the first error ends the lowering. A call in value
  position has the descriptor \<open>{1, false}\<close> and yields one value; the lowering checks
  the count of a callee that did not.
\<close>

function emitSugaredExpr ::
    "AttributeLookup \<Rightarrow> Resolver \<Rightarrow> Expr \<Rightarrow> Environment \<Rightarrow> (Error + SugaredValue) \<times> Environment"
  and emitApply ::
    "AttributeLookup \<Rightarrow> Resolver \<Rightarrow> size_t CallsiteDescriptor \<Rightarrow> SourceRange \<Rightarrow> Expr
       \<Rightarrow> Expr list \<Rightarrow> Attribute list \<Rightarrow> Environment \<Rightarrow> (Error + Value list) \<times> Environment"
  and emitValues ::
    "AttributeLookup \<Rightarrow> Resolver \<Rightarrow> Expr list \<Rightarrow> Environment \<Rightarrow> (Error + Value list) \<times> Environment"
where
  "emitSugaredExpr sa r (Var loc name) env =
     (case map_of (env_scope env) name of
        Some sv \<Rightarrow> (Inr sv, env)
      | None \<Rightarrow>
          (case r name of
             Some sv \<Rightarrow> (Inr sv, env\<lparr>resolver_calls := resolver_calls env @ [name]\<rparr>)
           | None \<Rightarrow> (Inl (UnresolvedNameError name loc),
                      env\<lparr>resolver_calls := resolver_calls env @ [name]\<rparr>)))"
| "emitSugaredExpr sa r (Select loc e field) env =
     (case emitSugaredExpr sa r e env of
        (Inl err, env1) \<Rightarrow> (Inl err, env1)
      | (Inr sv, env1) \<Rightarrow>
          (case attr sv loc (env_method env1) field of
             (res, m) \<Rightarrow> (res, env1\<lparr>env_method := m\<rparr>)))"
| "emitSugaredExpr sa r (Apply loc callee args attributes) env =
     (case emitApply sa r \<lparr>n_outputs = 1, allow_varargs = False\<rparr> loc callee args attributes env of
        (Inl err, env1) \<Rightarrow> (Inl err, env1)
      | (Inr outs, env1) \<Rightarrow>
          (case outs of
             [v] \<Rightarrow> (Inr (SimpleValue sa v), env1)
           | _ \<Rightarrow> (Inl (ArityMismatchError 1 (length outs) loc), env1)))"
| "emitApply sa r cd loc callee args attributes env =
     (case emitSugaredExpr sa r callee env of
        (Inl err, env1) \<Rightarrow> (Inl err, env1)
      | (Inr f, env1) \<Rightarrow>
          (case emitValues sa r args env1 of
             (Inl err, env2) \<Rightarrow> (Inl err, env2)
           | (Inr inputs, env2) \<Rightarrow>
               (case call f loc (env_method env2) inputs attributes cd of
                  (res, m) \<Rightarrow> (res, env2\<lparr>env_method := m\<rparr>))))"
| "emitValues sa r [] env = (Inr [], env)"
| "emitValues sa r (e # es) env =
     (case emitSugaredExpr sa r e env of
        (Inl err, env1) \<Rightarrow> (Inl err, env1)
      | (Inr sv, env1) \<Rightarrow>
          (case asValue sv (range_of e) (env_method env1) of
             (Inl err, m) \<Rightarrow> (Inl err, env1\<lparr>env_method := m\<rparr>)
           | (Inr v, m) \<Rightarrow>
               (case emitValues sa r es (env1\<lparr>env_method := m\<rparr>) of
                  (Inl err, env2) \<Rightarrow> (Inl err, env2)
                | (Inr vs, env2) \<Rightarrow> (Inr (v # vs), env2))))"
  by pat_completeness auto

termination
  by (relation "measure (\<lambda>x. case x of
          Inl (sa, r, e, env) \<Rightarrow> 2 * size e
        | Inr (Inl (sa, r, cd, loc, callee, args, attributes, env)) \<Rightarrow>
            2 * (size callee + size_list size args) + 1
        | Inr (Inr (sa, r, es, env)) \<Rightarrow> 2 * size_list size es)") auto

subsection \<open>Statements\<close>

text \<open>
  Modelled from the spec: the lowering of statements, whose body is not among the
  sources. The descriptor of a call on the right of an assignment to \<open>N\<close>
  targets is \<open>{N, false}\<close>, and its outputs are bound to the targets as graph values; a
  count other than \<open>N\<close> that the callee let through is an \<open>ArityMismatchError\<close>. Any other
  right-hand side is bound as it is to a single target, and expanded with \<open>asTuple\<close> for
  several. A statement that fails binds nothing, and the statements after it are not
  lowered.
\<close>

fun emitStatement ::
  "AttributeLookup \<Rightarrow> Resolver \<Rightarrow> Stmt \<Rightarrow> Environment \<Rightarrow> Error option \<times> Environment" where
  "emitStatement sa r (Assign loc targets (Apply aloc callee args attributes)) env =
     (case emitApply sa r \<lparr>n_outputs = of_nat (length targets), allow_varargs = False\<rparr>
             aloc callee args attributes env of
        (Inl err, env1) \<Rightarrow> (Some err, env1)
      | (Inr outs, env1) \<Rightarrow>
          if length outs = length targets
          then (None, setSugaredVars targets (map (SimpleValue sa) outs) env1)
          else (Some (ArityMismatchError (length targets) (length outs) loc), env1))"
| "emitStatement sa r (Assign loc targets rhs) env =
     (case emitSugaredExpr sa r rhs env of
        (Inl err, env1) \<Rightarrow> (Some err, env1)
      | (Inr sv, env1) \<Rightarrow>
          (case targets of
             [target] \<Rightarrow> (None, setSugaredVar target sv env1)
           | _ \<Rightarrow>
               (case asTuple sv loc (env_method env1) of
                  (Inl err, m) \<Rightarrow> (Some err, env1\<lparr>env_method := m\<rparr>)
                | (Inr svs, m) \<Rightarrow>
                    if length svs = length targets
                    then (None, setSugaredVars targets svs (env1\<lparr>env_method := m\<rparr>))
                    else (Some (ArityMismatchError (length targets) (length svs) loc),
                          env1\<lparr>env_method := m\<rparr>))))"

fun emitStatements ::
  "AttributeLookup \<Rightarrow> Resolver \<Rightarrow> Stmt list \<Rightarrow> Environment \<Rightarrow> Error option \<times> Environment" where
  "emitStatements sa r [] env = (None, env)"
| "emitStatements sa r (stmt # stmts) env =
     (case emitStatement sa r stmt env of
        (Some err, env1) \<Rightarrow> (Some err, env1)
      | (None, env1) \<Rightarrow> emitStatements sa r stmts env1)"

subsection \<open>Definitions\<close>

text \<open>
  Modelled from the spec: the lowering of one definition, whose body is not among the
  sources. A definition is lowered into a method of its own. If a receiver
  is given, the first formal parameter is bound to it; every other parameter becomes an
  input of the graph, bound as a graph value. The spec does not say what a receiver means
  for a definition without parameters; the model binds nothing then. After the body, the
  returned expressions are lowered in value position and become the outputs of the graph.
\<close>

definition addInput :: "Method \<Rightarrow> Value \<times> Method" where
  "addInput m =
     (let g = graph m; v = Value (next_unique g)
      in (v, m\<lparr>graph := g\<lparr>graph_inputs := graph_inputs g @ [v],
                               next_unique := next_unique g + 1\<rparr>\<rparr>))"

fun bindInputs :: "AttributeLookup \<Rightarrow> string list \<Rightarrow> Environment \<Rightarrow> Environment" where
  "bindInputs sa [] env = env"
| "bindInputs sa (param # params) env =
     (case addInput (env_method env) of
        (v, m) \<Rightarrow> bindInputs sa params (setSugaredVar param (SimpleValue sa v) (env\<lparr>env_method := m\<rparr>)))"

definition new_environment :: Environment where
  "new_environment = \<lparr>env_method = new_method, env_scope = [], resolver_calls = []\<rparr>"

fun startEnvironment ::
  "AttributeLookup \<Rightarrow> SugaredValue option \<Rightarrow> string list \<Rightarrow> Environment" where
  "startEnvironment sa (Some self) (param # params) =
     bindInputs sa params (setSugaredVar param self new_environment)"
| "startEnvironment sa self params = bindInputs sa params new_environment"

definition registerOutputs :: "Value list \<Rightarrow> Method \<Rightarrow> Method" where
  "registerOutputs vs m = m\<lparr>graph := (graph m)\<lparr>graph_outputs := vs\<rparr>\<rparr>"

definition lowerDef ::
  "AttributeLookup \<Rightarrow> Resolver \<Rightarrow> SugaredValue option \<Rightarrow> Def \<Rightarrow> (Error + Graph) \<times> Environment" where
  "lowerDef sa r self d =
     (case emitStatements sa r (def_body d) (startEnvironment sa self (def_params d)) of
        (Some err, env1) \<Rightarrow> (Inl err, env1)
      | (None, env1) \<Rightarrow>
          (case emitValues sa r (def_returns d) env1 of
             (Inl err, env2) \<Rightarrow> (Inl err, env2)
           | (Inr vs, env2) \<Rightarrow> (Inr (graph (registerOutputs vs (env_method env2))), env2)))"

subsection \<open>Entry points\<close>



definition compileFunction :: "AttributeLookup \<Rightarrow> Def \<Rightarrow> Resolver \<Rightarrow> Error + Graph" where
  "compileFunction sa d r = fst (lowerDef sa r None d)"


subsection \<open>Names that occur free\<close>

text \<open>
  Modelled from the spec: the free variables that a definition references, that is the
  references to names that are not bound in the lexical scope where they occur, in the
  order in which the lowering meets them. A name is bound by the parameter list and,
  after an assignment, by its targets.
\<close>

fun free_refs :: "string set \<Rightarrow> Expr \<Rightarrow> (SourceRange \<times> string) list" where
  "free_refs bound (Var loc name) = (if name \<in> bound then [] else [(loc, name)])"
| "free_refs bound (Select loc e field) = free_refs bound e"
| "free_refs bound (Apply loc callee args attributes) =
     free_refs bound callee @ concat (map (free_refs bound) args)"

fun free_refs_body :: "string set \<Rightarrow> Stmt list \<Rightarrow> Expr list \<Rightarrow> (SourceRange \<times> string) list" where
  "free_refs_body bound [] returns = concat (map (free_refs bound) returns)"
| "free_refs_body bound (Assign loc targets rhs # stmts) returns =
     free_refs bound rhs @ free_refs_body (set targets \<union> bound) stmts returns"

definition free_refs_def :: "Def \<Rightarrow> (SourceRange \<times> string) list" where
  "free_refs_def d = free_refs_body (set (def_params d)) (def_body d) (def_returns d)"

subsection \<open>Collaborators for concrete runs\<close>

text \<open>
  A small operator table (\<open>add\<close> with one output and \<open>split\<close> with two, the bound value
  first among the inputs), an attribute lookup that turns \<open>x.f\<close> into the built-in \<open>f\<close>
  bound to \<open>x\<close>, the resolver that knows no name and a resolver that knows the built-ins
  of the table.
\<close>

definition bound_first :: "Value option \<Rightarrow> Value list \<Rightarrow> Value list" where
  "bound_first val inputs = (case val of None \<Rightarrow> inputs | Some v \<Rightarrow> v # inputs)"

definition example_table :: OperatorTable where
  "example_table name val inputs =
     (if name = ''add''
      then Some \<lparr>op_kind = ''add'', op_inputs = bound_first val inputs, op_n_outputs = 1\<rparr>
      else if name = ''split''
      then Some \<lparr>op_kind = ''split'', op_inputs = bound_first val inputs, op_n_outputs = 2\<rparr>
      else None)"

definition example_attr :: AttributeLookup where
  "example_attr v loc m field = (Inr (BuiltinFunction example_table field (Some v)), m)"

definition absent_resolver :: Resolver where
  "absent_resolver name = None"

definition example_resolver :: Resolver where
  "example_resolver name =
     (if name = ''add'' \<or> name = ''split'' then Some (BuiltinFunction example_table name None)
      else None)"

text \<open>
  A receiver that overrides nothing, and four definitions:
  \<^verbatim>\<open>def f(self, x): a, b = split(x); c = a.add(b); return c\<close>,
  \<^verbatim>\<open>def g(x): a = x(); return y\<close>,
  \<^verbatim>\<open>def h(x): return y\<close> and
  \<^verbatim>\<open>def k(x): a, b = add(x); return a\<close>.
\<close>

definition example_self :: SugaredValue where
  "example_self = SugaredValue ''module'' None None None None None"


definition example_g :: Def where
  "example_g =
     \<lparr>def_name = ''g'', def_params = [''x''],
      def_body =
        [Assign (SourceRange 10 17) [''a''] (Apply (SourceRange 14 17) (Var (SourceRange 14 15) ''x'') [] [])],
      def_returns = [Var (SourceRange 26 27) ''y'']\<rparr>"

definition example_h :: Def where
  "example_h =
     \<lparr>def_name = ''h'', def_params = [''x''], def_body = [],
      def_returns = [Var (SourceRange 17 18) ''y'']\<rparr>"

definition example_k :: Def where
  "example_k =
     \<lparr>def_name = ''k'', def_params = [''x''],
      def_body =
        [Assign (SourceRange 10 23) [''a'', ''b'']
           (Apply (SourceRange 17 23) (Var (SourceRange 17 20) ''add'')
              [Var (SourceRange 21 22) ''x''] [])],
      def_returns = [Var (SourceRange 32 33) ''a'']\<rparr>"

subsection \<open>Predicates of the proofs\<close>

text \<open>
  \<open>bound_names\<close> are the names in scope. \<open>bound_unresolved p\<close> holds of an environment in
  which \<open>p\<close> is in scope and the resolver has not been invoked with \<open>p\<close>.
  \<open>first_free_reported\<close> says that the resolver was invoked once more, with the name of the
  first free reference, and that the error names that reference. \<open>absent_run\<close> relates
  the free references of a piece of syntax to the outcome of lowering it with a resolver
  that knows no name: success needs that there is no free reference, and a failure either
  came before the resolver was invoked or reports the first free reference.
\<close>

definition bound_names :: "Environment \<Rightarrow> string set" where
  "bound_names env = fst ` set (env_scope env)"

definition bound_unresolved :: "string \<Rightarrow> Environment \<Rightarrow> bool" where
  "bound_unresolved p env \<longleftrightarrow>
     map_of (env_scope env) p \<noteq> None \<and> p \<notin> set (resolver_calls env)"

fun error_of :: "Error + 'a \<Rightarrow> Error option" where
  "error_of (Inl err) = Some err"
| "error_of (Inr x) = None"

definition first_free_reported ::
  "(SourceRange \<times> string) list \<Rightarrow> string list \<Rightarrow> Error \<Rightarrow> string list \<Rightarrow> bool" where
  "first_free_reported refs calls err calls' =
     (case refs of
        [] \<Rightarrow> False
      | (loc, name) # rest \<Rightarrow> calls' = calls @ [name] \<and> err = UnresolvedNameError name loc)"

definition absent_run ::
  "(SourceRange \<times> string) list \<Rightarrow> Environment \<Rightarrow> Error option \<Rightarrow> Environment \<Rightarrow> bool" where
  "absent_run refs env res env' =
     (case res of
        None \<Rightarrow> refs = [] \<and> resolver_calls env' = resolver_calls env
      | Some err \<Rightarrow>
          resolver_calls env' = resolver_calls env \<or>
          first_free_reported refs (resolver_calls env) err (resolver_calls env'))"

section \<open>Properties of the value interface\<close>

subsection \<open>Capabilities that a variant does not override\<close>

lemma capability_message_length:
  "length (capability_message k c) = length k +
     (case c of AsValue \<Rightarrow> 26 | Attr \<Rightarrow> 35 | AsTuple \<Rightarrow> 24 | Call \<Rightarrow> 14 | UnrolledFor \<Rightarrow> 16)"
  by (cases c) simp_all

lemma capability_message_operation:
  assumes "capability_message k c = capability_message k c'"
  shows "c = c'"
proof -
  from assms have "length (capability_message k c) = length (capability_message k c')"
    by simp
  then show ?thesis
    unfolding capability_message_length by (cases c; cases c') simp_all
qed

lemma capability_message_kind:
  "capability_message k c = capability_message k' c \<Longrightarrow> k = k'"
  by (cases c) simp_all

text \<open>
  C1. Whatever the variant \<open>V\<close>, each of the five operations that \<open>V\<close> does not override
  throws: the result is the error report at the call site \<open>loc\<close> whose message is the
  base class text for \<open>kind V\<close> and that operation, never a value, and the method under
  construction is left as it was. For a given variant the error determines the missing
  operation and the location, and for a given operation it determines the kind.
\<close>

theorem default_capability_fails:
  "(asValue_override V = None \<longrightarrow>
      asValue V loc m = (Inl (CapabilityError (kind V) AsValue loc), m)) \<and>
   (attr_override V = None \<longrightarrow>
      attr V loc m field = (Inl (CapabilityError (kind V) Attr loc), m)) \<and>
   (asTuple_override V = None \<longrightarrow>
      asTuple V loc m = (Inl (CapabilityError (kind V) AsTuple loc), m)) \<and>
   (call_override V = None \<longrightarrow>
      call V loc m inputs attributes cd = (Inl (CapabilityError (kind V) Call loc), m)) \<and>
   (unrolledFor_override V = None \<longrightarrow>
      unrolledFor V loc m = (Inl (CapabilityError (kind V) UnrolledFor loc), m)) \<and>
   (\<forall>c c' loc'. CapabilityError (kind V) c loc = CapabilityError (kind V) c' loc'
       \<longrightarrow> c = c' \<and> loc = loc') \<and>
   (\<forall>k c. CapabilityError (kind V) c loc = CapabilityError k c loc \<longrightarrow> k = kind V)"
  by (auto simp: asValue_def attr_def asTuple_def call_def unrolledFor_def CapabilityError_def
      dest: capability_message_operation capability_message_kind)

theorem default_capability_fails_witness:
  "asValue (SugaredValue ''module'' None None None None None) (SourceRange 3 9) new_method
     = (Inl (ErrorReport (SourceRange 3 9) ''module cannot be used as a value''), new_method) \<and>
   attr (SugaredValue ''module'' None None None None None) (SourceRange 3 9) new_method ''f''
     = (Inl (ErrorReport (SourceRange 3 9) ''attribute lookup is not defined on module''),
        new_method) \<and>
   asTuple (SugaredValue ''module'' None None None None None) (SourceRange 3 9) new_method
     = (Inl (ErrorReport (SourceRange 3 9) ''module cannot be used as tuple''), new_method) \<and>
   call (SugaredValue ''module'' None None None None None) (SourceRange 3 9) new_method
       [Value 0] [] \<lparr>n_outputs = 1, allow_varargs = False\<rparr>
     = (Inl (ErrorReport (SourceRange 3 9) ''cannot call a module''), new_method) \<and>
   unrolledFor (SugaredValue ''module'' None None None None None) (SourceRange 3 9) new_method
     = (Inl (ErrorReport (SourceRange 3 9) ''module is not iterable''), new_method)"
  using default_capability_fails
    [of "SugaredValue ''module'' None None None None None" "SourceRange 3 9" new_method
        "''f''" "[Value 0]" "[]" "\<lparr>n_outputs = 1, allow_varargs = False\<rparr>"]
  by (simp add: CapabilityError_def)

subsection \<open>SimpleValue and BuiltinFunction\<close>

text \<open>
  C7. For every graph value \<open>v\<close>, every location and every method under construction,
  \<open>asValue\<close> of the wrapper \<open>SimpleValue v\<close> returns exactly \<open>v\<close>; the method, and so its
  graph, is the one that was passed in.
\<close>

theorem SimpleValue_asValue:
  "asValue (SimpleValue simple_attr v) loc m = (Inr v, m)"
  by (simp add: asValue_def SimpleValue_def)

text \<open>
  C10. A \<open>BuiltinFunction\<close> whose \<open>value\<close> member is not null is of kind \<open>builtin\<close> and
  still inherits \<open>asValue\<close>, \<open>attr\<close>, \<open>asTuple\<close> and \<open>unrolledFor\<close> from the base class: each
  of them throws the base class error for \<open>builtin\<close> and leaves the method as it was. The
  only operation it overrides is \<open>call\<close>.
\<close>

theorem BuiltinFunction_value_not_materializable:
  "kind (BuiltinFunction table name (Some v)) = ''builtin'' \<and>
   asValue (BuiltinFunction table name (Some v)) loc m
     = (Inl (ErrorReport loc ''builtin cannot be used as a value''), m) \<and>
   attr (BuiltinFunction table name (Some v)) loc m field
     = (Inl (ErrorReport loc ''attribute lookup is not defined on builtin''), m) \<and>
   asTuple (BuiltinFunction table name (Some v)) loc m
     = (Inl (ErrorReport loc ''builtin cannot be used as tuple''), m) \<and>
   unrolledFor (BuiltinFunction table name (Some v)) loc m
     = (Inl (ErrorReport loc ''builtin is not iterable''), m) \<and>
   call_override (BuiltinFunction table name (Some v)) \<noteq> None"
  by (simp add: asValue_def attr_def asTuple_def unrolledFor_def BuiltinFunction_def)

subsection \<open>The variadic sentinel\<close>

text \<open>
  C9. For a \<open>size_t\<close> of width \<open>w\<close>, \<open>VARARG_OUTPUTS\<close> is \<open>2 ^ w - 1\<close>. The sentinel is
  in band: a descriptor whose \<open>n_outputs\<close> is \<open>2 ^ w - 1\<close> has the sentinel as its
  \<open>n_outputs\<close>, and a descriptor whose \<open>n_outputs\<close> is below \<open>2 ^ w - 1\<close> does not.
\<close>

theorem VARARG_OUTPUTS_sentinel:
  "unat (VARARG_OUTPUTS :: 'w::len word) = 2 ^ LENGTH('w) - 1 \<and>
   (unat (n_outputs (cd :: 'w word CallsiteDescriptor)) = 2 ^ LENGTH('w) - 1
      \<longleftrightarrow> n_outputs cd = VARARG_OUTPUTS) \<and>
   (unat (n_outputs cd) < 2 ^ LENGTH('w) - 1 \<longrightarrow> n_outputs cd \<noteq> VARARG_OUTPUTS)"
proof -
  have max: "unat (- 1 :: 'w word) = 2 ^ LENGTH('w) - 1"
    by (simp add: unsigned_minus_1_eq_mask mask_eq_exp_minus_1)
  have inj: "\<And>n :: 'w word. unat n = 2 ^ LENGTH('w) - 1 \<longleftrightarrow> n = - 1"
    using max by (metis word_unat_eq_iff)
  show ?thesis
    unfolding VARARG_OUTPUTS_def using max inj [of "n_outputs cd"] by auto
qed

theorem VARARG_OUTPUTS_sentinel_witness:
  "unat (VARARG_OUTPUTS :: 64 word) = 18446744073709551615 \<and>
   n_outputs \<lparr>n_outputs = 18446744073709551615 :: 64 word, allow_varargs = False\<rparr>
      = VARARG_OUTPUTS \<and>
   n_outputs \<lparr>n_outputs = 3 :: 64 word, allow_varargs = False\<rparr> \<noteq> VARARG_OUTPUTS"
  using VARARG_OUTPUTS_sentinel
     [of "\<lparr>n_outputs = 18446744073709551615 :: 64 word, allow_varargs = False\<rparr>"]
    VARARG_OUTPUTS_sentinel [of "\<lparr>n_outputs = 3 :: 64 word, allow_varargs = False\<rparr>"]
  by simp

subsection \<open>Calling a built-in function\<close>

lemmas run_defs =
  lowerDef_def example_attr_def example_resolver_def example_table_def bound_first_def
  new_environment_def
  new_method_def new_graph_def setSugaredVar_def addInput_def Let_def SimpleValue_def
  BuiltinFunction_def call_def asValue_def attr_def asTuple_def BuiltinFunction_call_def
  emitNode_def registerOutputs_def absent_resolver_def example_self_def

text \<open>
  C2. When the operator that the table resolves declares \<open>M\<close> outputs, the descriptor
  expects \<open>N\<close> with \<open>M \<noteq> N\<close> and \<open>allow_varargs\<close> is false, \<open>call\<close> on the built-in fails
  with \<open>ArityMismatchError N M loc\<close> and returns the method as it was: the failure is the
  result of the call during lowering, and no node is emitted that could fail later.
  Accordingly the lowering of an assignment of such a call to \<open>N\<close> targets fails with
  that error.
\<close>

theorem BuiltinFunction_call_arity_mismatch:
  assumes "table name val inputs = Some operator"
  shows "(\<not> allow_varargs cd \<and> op_n_outputs operator \<noteq> unat (n_outputs cd) \<longrightarrow>
            call (BuiltinFunction table name val) loc m inputs attributes cd
              = (Inl (ArityMismatchError (unat (n_outputs cd)) (op_n_outputs operator) loc), m)) \<and>
         (emitSugaredExpr sa r callee env = (Inr (BuiltinFunction table name val), env') \<and>
          emitValues sa r args env' = (Inr inputs, env'') \<and>
          op_n_outputs operator \<noteq> length targets \<and> length targets < 2 ^ 64 \<longrightarrow>
            emitStatement sa r (Assign sloc targets (Apply loc callee args attributes)) env
              = (Some (ArityMismatchError (length targets) (op_n_outputs operator) loc), env''))"
proof -
  have n: "unat (of_nat (length targets) :: size_t) = length targets"
    if "length targets < 2 ^ 64"
    using that by (simp add: unat_of_nat)
  show ?thesis
    using assms n
    by (auto simp: call_def BuiltinFunction_def BuiltinFunction_call_def)
qed

theorem BuiltinFunction_call_arity_mismatch_witness:
  "call (BuiltinFunction example_table ''add'' None) (SourceRange 17 23) (snd (addInput new_method))
       [Value 0] [] \<lparr>n_outputs = 2, allow_varargs = False\<rparr>
     = (Inl (ArityMismatchError 2 1 (SourceRange 17 23)), snd (addInput new_method)) \<and>
   compileFunction example_attr example_k example_resolver
     = Inl (ArityMismatchError 2 1 (SourceRange 17 23))"
  using BuiltinFunction_call_arity_mismatch
    [where table = example_table and name = "''add''" and val = None and inputs = "[Value 0]"
       and operator = "\<lparr>op_kind = ''add'', op_inputs = [Value 0], op_n_outputs = 1\<rparr>"
       and cd = "\<lparr>n_outputs = 2, allow_varargs = False\<rparr>" and loc = "SourceRange 17 23"
       and m = "snd (addInput new_method)" and attributes = "[]"
       and sa = example_attr and r = example_resolver
       and callee = "Var (SourceRange 17 20) ''add''"
       and env = "startEnvironment example_attr None [''x'']"
       and env' = "(startEnvironment example_attr None [''x''])\<lparr>resolver_calls := [''add'']\<rparr>"
       and env'' = "(startEnvironment example_attr None [''x''])\<lparr>resolver_calls := [''add'']\<rparr>"
       and args = "[Var (SourceRange 21 22) ''x'']" and targets = "[''a'', ''b'']"
       and sloc = "SourceRange 10 23"]
  by (simp add: compileFunction_def run_defs example_k_def)

text \<open>
  C3. When the table resolves the name and the inputs to an operator whose declared output
  count is the one the descriptor expects, \<open>call\<close> on the built-in succeeds and appends
  exactly one node to the graph: the node of the resolved operator, with the resolved
  inputs and with the returned values as its outputs, as many as the operator declares.
  The inputs and outputs of the graph are not touched.
\<close>

theorem BuiltinFunction_call_emits_one_node:
  assumes "table name val inputs = Some operator"
    and "unat (n_outputs cd) = op_n_outputs operator"
  shows "\<exists>outs m'.
           call (BuiltinFunction table name val) loc m inputs attributes cd = (Inr outs, m') \<and>
           graph_nodes (graph m') = graph_nodes (graph m) @
             [\<lparr>node_kind = op_kind operator, node_inputs = op_inputs operator,
               node_attributes = attributes, node_outputs = outs\<rparr>] \<and>
           length outs = op_n_outputs operator \<and>
           graph_inputs (graph m') = graph_inputs (graph m) \<and>
           graph_outputs (graph m') = graph_outputs (graph m)"
  using assms
  by (simp add: call_def BuiltinFunction_def BuiltinFunction_call_def emitNode_def Let_def)

theorem BuiltinFunction_call_emits_one_node_witness:
  "\<exists>outs m'.
     call (BuiltinFunction example_table ''split'' None) (SourceRange 7 15)
         (snd (addInput new_method)) [Value 0] [] \<lparr>n_outputs = 2, allow_varargs = False\<rparr>
       = (Inr outs, m') \<and>
     graph_nodes (graph m') =
       [\<lparr>node_kind = ''split'', node_inputs = [Value 0], node_attributes = [],
         node_outputs = outs\<rparr>] \<and>
     length outs = 2 \<and>
     graph_inputs (graph m') = [Value 0] \<and>
     graph_outputs (graph m') = []"
  using BuiltinFunction_call_emits_one_node
    [of example_table "''split''" None "[Value 0]"
        "\<lparr>op_kind = ''split'', op_inputs = [Value 0], op_n_outputs = 2\<rparr>"
        "\<lparr>n_outputs = 2, allow_varargs = False\<rparr>" "SourceRange 7 15"
        "snd (addInput new_method)" "[]"]
  by (simp add: example_table_def bound_first_def addInput_def new_method_def new_graph_def
      Let_def)

section \<open>Properties of the lowering\<close>

subsection \<open>What the lowering of expressions keeps\<close>

lemma emit_scope:
  "env_scope (snd (emitSugaredExpr sa r e env)) = env_scope env"
  "env_scope (snd (emitApply sa r cd loc callee args attributes env)) = env_scope env"
  "env_scope (snd (emitValues sa r es env)) = env_scope env"
  by (induction sa r e env and sa r cd loc callee args attributes env and sa r es env
      rule: emitSugaredExpr_emitApply_emitValues.induct)
    (auto split: prod.splits sum.splits option.splits list.splits)

lemma emit_bound_names:
  "emitSugaredExpr sa r e env = (res, env') \<Longrightarrow> bound_names env' = bound_names env"
  "emitApply sa r cd loc callee args attributes env = (res', env') \<Longrightarrow>
     bound_names env' = bound_names env"
  "emitValues sa r es env = (res', env') \<Longrightarrow> bound_names env' = bound_names env"
  using emit_scope(1) [of sa r e env] emit_scope(2) [of sa r cd loc callee args attributes env]
    emit_scope(3) [of sa r es env]
  by (simp_all add: bound_names_def)

lemma first_free_reported_append:
  "first_free_reported xs calls err calls' \<Longrightarrow> first_free_reported (xs @ ys) calls err calls'"
  by (cases xs) (auto simp: first_free_reported_def)

lemma absent_run_fail:
  "absent_run xs env (Some err) env' \<Longrightarrow> absent_run (xs @ ys) env (Some err) env'"
  by (auto simp: absent_run_def first_free_reported_append)

lemma absent_run_seq:
  "absent_run xs env None env1 \<Longrightarrow> absent_run ys env1 res env2 \<Longrightarrow>
     absent_run (xs @ ys) env res env2"
  by (cases res) (auto simp: absent_run_def)

lemma absent_run_method:
  "absent_run xs env None env1 \<Longrightarrow> absent_run xs env None (env1\<lparr>env_method := m\<rparr>)"
  "absent_run xs env None env1 \<Longrightarrow> absent_run xs env (Some err) (env1\<lparr>env_method := m\<rparr>)"
  by (auto simp: absent_run_def)

lemma absent_run_weaken:
  "absent_run xs env None env1 \<Longrightarrow> absent_run xs env res env1"
  by (cases res) (auto simp: absent_run_def)

lemma emit_absent:
  "absent_run (free_refs (bound_names env) e) env
     (error_of (fst (emitSugaredExpr sa absent_resolver e env)))
     (snd (emitSugaredExpr sa absent_resolver e env))"
  "absent_run (free_refs (bound_names env) callee @ concat (map (free_refs (bound_names env)) args))
     env
     (error_of (fst (emitApply sa absent_resolver cd loc callee args attributes env)))
     (snd (emitApply sa absent_resolver cd loc callee args attributes env))"
  "absent_run (concat (map (free_refs (bound_names env)) es)) env
     (error_of (fst (emitValues sa absent_resolver es env)))
     (snd (emitValues sa absent_resolver es env))"
proof (induction sa "absent_resolver" e env and sa "absent_resolver" cd loc callee args attributes env
        and sa "absent_resolver" es env
      rule: emitSugaredExpr_emitApply_emitValues.induct)
  case (1 sa loc name env)
  then show ?case
    by (auto simp: absent_run_def absent_resolver_def first_free_reported_def bound_names_def
        map_of_eq_None_iff split: option.splits dest: weak_map_of_SomeI
        intro: rev_image_eqI map_of_SomeD)
next
  case (2 sa loc e field env)
  show ?case
  proof (cases "emitSugaredExpr sa absent_resolver e env")
    case (Pair res env1)
    show ?thesis
    proof (cases res)
      case (Inl err)
      with Pair 2 show ?thesis by simp
    next
      case (Inr sv)
      with Pair 2 have "absent_run (free_refs (bound_names env) e) env None env1" by simp
      with Pair Inr show ?thesis
        by (cases "attr sv loc (env_method env1) field"; cases "fst (attr sv loc (env_method env1) field)")
           (auto simp: absent_run_method)
    qed
  qed
next
  case (3 sa loc callee args attributes env)
  then show ?case
    by (cases "emitApply sa absent_resolver \<lparr>n_outputs = 1, allow_varargs = False\<rparr> loc callee args attributes env";
        cases "fst (emitApply sa absent_resolver \<lparr>n_outputs = 1, allow_varargs = False\<rparr> loc callee args attributes env)")
       (auto simp: absent_run_weaken split: list.splits)
next
  case (4 sa cd loc callee args attributes env)
  show ?case
  proof (cases "emitSugaredExpr sa absent_resolver callee env")
    case (Pair res env1)
    show ?thesis
    proof (cases res)
      case (Inl err)
      with Pair 4(1) show ?thesis by (simp add: absent_run_fail)
    next
      case (Inr f)
      with Pair 4(1) have c: "absent_run (free_refs (bound_names env) callee) env None env1"
        by simp
      have b: "bound_names env1 = bound_names env"
        using emit_bound_names(1) [OF Pair] .
      obtain res2 env2 where args: "emitValues sa absent_resolver args env1 = (res2, env2)"
        by (cases "emitValues sa absent_resolver args env1")
      have a: "absent_run (concat (map (free_refs (bound_names env)) args)) env1 (error_of res2) env2"
        using 4(2) [OF Pair [symmetric, unfolded Inr] refl] args b by simp
      show ?thesis
      proof (cases res2)
        case (Inl err)
        with Pair Inr args absent_run_seq [OF c a] show ?thesis by simp
      next
        case (Inr inputs)
        with a have "absent_run (concat (map (free_refs (bound_names env)) args)) env1 None env2"
          by simp
        from absent_run_seq [OF c this] Pair \<open>res = Inr f\<close> args Inr show ?thesis
          by (cases "call f loc (env_method env2) inputs attributes cd";
              cases "fst (call f loc (env_method env2) inputs attributes cd)")
             (auto simp: absent_run_method)
      qed
    qed
  qed
next
  case (5 sa env)
  then show ?case by (simp add: absent_run_def)
next
  case (6 sa e es env)
  show ?case
  proof (cases "emitSugaredExpr sa absent_resolver e env")
    case (Pair res env1)
    show ?thesis
    proof (cases res)
      case (Inl err)
      with Pair 6(1) show ?thesis by (simp add: absent_run_fail)
    next
      case (Inr sv)
      with Pair 6(1) have c: "absent_run (free_refs (bound_names env) e) env None env1"
        by simp
      have b: "bound_names env1 = bound_names env"
        using emit_bound_names(1) [OF Pair] .
      obtain res1 m where val: "asValue sv (range_of e) (env_method env1) = (res1, m)"
        by (cases "asValue sv (range_of e) (env_method env1)")
      show ?thesis
      proof (cases res1)
        case (Inl err)
        with Pair Inr val absent_run_fail [OF absent_run_method(2) [OF c]] show ?thesis
          by simp
      next
        case (Inr v)
        let ?env1 = "env1\<lparr>env_method := m\<rparr>"
        have c': "absent_run (free_refs (bound_names env) e) env None ?env1"
          using c by (rule absent_run_method(1))
        have b': "bound_names ?env1 = bound_names env"
          using b by (simp add: bound_names_def)
        obtain res2 env2 where rest: "emitValues sa absent_resolver es ?env1 = (res2, env2)"
          by (cases "emitValues sa absent_resolver es ?env1")
        have a: "absent_run (concat (map (free_refs (bound_names env)) es)) ?env1 (error_of res2) env2"
          using 6(2) [OF Pair [symmetric, unfolded \<open>res = Inr sv\<close>] refl val [symmetric, unfolded Inr] refl]
            rest b' by simp
        from absent_run_seq [OF c' a] Pair \<open>res = Inr sv\<close> val Inr rest show ?thesis
          by (cases res2) simp_all
      qed
    qed
  qed
qed


lemma bound_unresolved_method [simp]:
  "bound_unresolved p (env\<lparr>env_method := m\<rparr>) = bound_unresolved p env"
  by (simp add: bound_unresolved_def)

lemma bound_unresolved_setSugaredVar:
  "bound_unresolved p env \<Longrightarrow> bound_unresolved p (setSugaredVar name sv env)"
  by (simp add: bound_unresolved_def setSugaredVar_def)



lemma emitStatement_not_Apply:
  assumes "\<forall>aloc callee args attributes. rhs \<noteq> Apply aloc callee args attributes"
  shows "emitStatement sa r (Assign loc targets rhs) env =
     (case emitSugaredExpr sa r rhs env of
        (Inl err, env1) \<Rightarrow> (Some err, env1)
      | (Inr sv, env1) \<Rightarrow>
          (case targets of
             [target] \<Rightarrow> (None, setSugaredVar target sv env1)
           | _ \<Rightarrow>
               (case asTuple sv loc (env_method env1) of
                  (Inl err, m) \<Rightarrow> (Some err, env1\<lparr>env_method := m\<rparr>)
                | (Inr svs, m) \<Rightarrow>
                    if length svs = length targets
                    then (None, setSugaredVars targets svs (env1\<lparr>env_method := m\<rparr>))
                    else (Some (ArityMismatchError (length targets) (length svs) loc),
                          env1\<lparr>env_method := m\<rparr>))))"
  using assms by (cases rhs) simp_all



lemma bindInputs_bound_unresolved:
  "bound_unresolved p env \<Longrightarrow> bound_unresolved p (bindInputs sa params env)"
  by (induction sa params env rule: bindInputs.induct)
     (auto split: prod.splits simp: bound_unresolved_setSugaredVar)



subsection \<open>The receiver\<close>

lemma bindInputs_resolver_calls:
  "resolver_calls (bindInputs sa params env) = resolver_calls env"
  by (induction sa params env rule: bindInputs.induct)
     (auto split: prod.splits simp: setSugaredVar_def)



subsection \<open>First error and registration\<close>




subsection \<open>A resolver that knows no name\<close>

lemma bound_names_method [simp]:
  "bound_names (env\<lparr>env_method := m\<rparr>) = bound_names env"
  by (simp add: bound_names_def)

lemma setSugaredVar_bound_names:
  "bound_names (setSugaredVar name sv env) = insert name (bound_names env)"
  by (simp add: bound_names_def setSugaredVar_def)

lemma setSugaredVar_resolver_calls:
  "resolver_calls (setSugaredVar name sv env) = resolver_calls env"
  by (simp add: setSugaredVar_def)

lemma setSugaredVars_bound_names:
  "length svs = length names \<Longrightarrow>
     bound_names (setSugaredVars names svs env) = set names \<union> bound_names env"
  by (induction names svs env rule: setSugaredVars.induct)
     (auto simp: bound_names_def setSugaredVar_def)

lemma setSugaredVars_resolver_calls:
  "resolver_calls (setSugaredVars names svs env) = resolver_calls env"
  by (induction names svs env rule: setSugaredVars.induct)
     (auto simp: setSugaredVar_def)

lemma emitStatement_absent_not_Apply:
  assumes stmt: "emitStatement sa absent_resolver (Assign loc targets rhs) env = (res, env')"
    and rhs: "\<forall>aloc callee args attributes. rhs \<noteq> Apply aloc callee args attributes"
  shows "absent_run (free_refs (bound_names env) rhs) env res env' \<and>
         (res = None \<longrightarrow> bound_names env' = set targets \<union> bound_names env)"
proof -
  note eq = emitStatement_not_Apply [OF rhs, of sa absent_resolver loc targets env]
  obtain res1 env1 where e: "emitSugaredExpr sa absent_resolver rhs env = (res1, env1)"
    by (cases "emitSugaredExpr sa absent_resolver rhs env")
  have run: "absent_run (free_refs (bound_names env) rhs) env (error_of res1) env1"
    using emit_absent(1) [of env rhs sa] e by simp
  have b: "bound_names env1 = bound_names env"
    using emit_bound_names(1) [OF e] .
  show ?thesis
  proof (cases res1)
    case (Inl err)
    with stmt eq e run show ?thesis by auto
  next
    case (Inr sv)
    with run have run1: "absent_run (free_refs (bound_names env) rhs) env None env1"
      by simp
    then have ok: "free_refs (bound_names env) rhs = []"
      "resolver_calls env1 = resolver_calls env"
      by (simp_all add: absent_run_def)
    show ?thesis
    proof (cases "\<exists>target. targets = [target]")
      case True
      then obtain target where single: "targets = [target]" ..
      with stmt eq e Inr have "res = None" "env' = setSugaredVar target sv env1"
        by simp_all
      with ok b single show ?thesis
        by (simp add: absent_run_def setSugaredVar_bound_names setSugaredVar_resolver_calls)
    next
      case False
      obtain res2 m where t: "asTuple sv loc (env_method env1) = (res2, m)"
        by (cases "asTuple sv loc (env_method env1)")
      have tuple: "(res, env') =
         (case res2 of
            Inl err \<Rightarrow> (Some err, env1\<lparr>env_method := m\<rparr>)
          | Inr svs \<Rightarrow>
              if length svs = length targets
              then (None, setSugaredVars targets svs (env1\<lparr>env_method := m\<rparr>))
              else (Some (ArityMismatchError (length targets) (length svs) loc),
                    env1\<lparr>env_method := m\<rparr>))"
        using stmt eq e Inr t False by (cases targets rule: remdups_adj.cases) simp_all
      show ?thesis
      proof (cases res2)
        case (Inl err)
        with tuple have "res = Some err" "env' = env1\<lparr>env_method := m\<rparr>" by simp_all
        with absent_run_method(2) [OF run1] show ?thesis by simp
      next
        case (Inr svs)
        show ?thesis
        proof (cases "length svs = length targets")
          case True
          with tuple Inr have "res = None"
            "env' = setSugaredVars targets svs (env1\<lparr>env_method := m\<rparr>)"
            by simp_all
          with ok b True show ?thesis
            by (simp add: absent_run_def setSugaredVars_bound_names setSugaredVars_resolver_calls)
        next
          case False
          with tuple Inr have "res = Some (ArityMismatchError (length targets) (length svs) loc)"
            "env' = env1\<lparr>env_method := m\<rparr>"
            by simp_all
          with absent_run_method(2) [OF run1] show ?thesis by simp
        qed
      qed
    qed
  qed
qed

lemma emitStatement_absent:
  assumes "emitStatement sa absent_resolver (Assign loc targets rhs) env = (res, env')"
  shows "absent_run (free_refs (bound_names env) rhs) env res env' \<and>
         (res = None \<longrightarrow> bound_names env' = set targets \<union> bound_names env)"
proof (cases rhs)
  case (Apply aloc callee args attributes)
  let ?cd = "\<lparr>n_outputs = of_nat (length targets), allow_varargs = False\<rparr> :: size_t CallsiteDescriptor"
  obtain res1 env1 where
    app: "emitApply sa absent_resolver ?cd aloc callee args attributes env = (res1, env1)"
    by (cases "emitApply sa absent_resolver ?cd aloc callee args attributes env")
  have run: "absent_run (free_refs (bound_names env) rhs) env (error_of res1) env1"
    using emit_absent(2) [of env callee args sa ?cd aloc attributes] app Apply by simp
  have b: "bound_names env1 = bound_names env"
    using emit_bound_names(2) [OF app] .
  show ?thesis
  proof (cases res1)
    case (Inl err)
    with assms Apply app run show ?thesis by auto
  next
    case (Inr outs)
    with assms Apply app run b show ?thesis
      by (auto simp: setSugaredVars_bound_names setSugaredVars_resolver_calls absent_run_def
          split: if_splits)
  qed
next
  case (Var vloc name)
  then show ?thesis
    using emitStatement_absent_not_Apply [OF assms] by simp
next
  case (Select sloc e field)
  then show ?thesis
    using emitStatement_absent_not_Apply [OF assms] by simp
qed

lemma emitStatements_absent:
  assumes "emitStatements sa absent_resolver stmts env = (res, env')"
  shows "absent_run (free_refs_body (bound_names env) stmts returns) env res env' \<or>
         (res = None \<and> resolver_calls env' = resolver_calls env \<and>
          free_refs_body (bound_names env) stmts returns
            = concat (map (free_refs (bound_names env')) returns))"
  using assms
proof (induction stmts arbitrary: env)
  case Nil
  then show ?case by auto
next
  case (Cons stmt stmts)
  obtain loc targets rhs where stmt: "stmt = Assign loc targets rhs"
    by (cases stmt)
  obtain res1 env1 where s: "emitStatement sa absent_resolver (Assign loc targets rhs) env = (res1, env1)"
    by (cases "emitStatement sa absent_resolver (Assign loc targets rhs) env")
  note first = emitStatement_absent [OF s]
  show ?case
  proof (cases res1)
    case (Some err)
    with Cons.prems stmt s first show ?thesis
      by (auto simp: absent_run_fail)
  next
    case None
    with first have run1: "absent_run (free_refs (bound_names env) rhs) env None env1"
      and b: "bound_names env1 = set targets \<union> bound_names env"
      by simp_all
    from Cons.prems stmt s None have rest: "emitStatements sa absent_resolver stmts env1 = (res, env')"
      by simp
    from Cons.IH [OF rest] show ?thesis
    proof
      assume "absent_run (free_refs_body (bound_names env1) stmts returns) env1 res env'"
      from absent_run_seq [OF run1 this] show ?thesis
        by (simp add: stmt b)
    next
      assume "res = None \<and> resolver_calls env' = resolver_calls env1 \<and>
          free_refs_body (bound_names env1) stmts returns
            = concat (map (free_refs (bound_names env')) returns)"
      with run1 show ?thesis
        by (simp add: stmt b absent_run_def)
    qed
  qed
qed

lemma new_environment_bound_names:
  "bound_names new_environment = {}"
  by (simp add: bound_names_def new_environment_def)

lemma bindInputs_bound_names:
  "bound_names (bindInputs sa params env) = set params \<union> bound_names env"
  by (induction sa params env rule: bindInputs.induct)
     (auto split: prod.splits simp: setSugaredVar_bound_names)


lemma startEnvironment_bound_names:
  "bound_names (startEnvironment sa self params) = set params"
  by (cases "(sa, self, params)" rule: startEnvironment.cases)
     (auto simp: bindInputs_bound_names setSugaredVar_bound_names new_environment_bound_names)

lemma startEnvironment_resolver_calls:
  "resolver_calls (startEnvironment sa self params) = []"
  by (cases "(sa, self, params)" rule: startEnvironment.cases)
     (auto simp: bindInputs_resolver_calls setSugaredVar_def new_environment_def)

text \<open>
  C6, as the claim states it, fails: \<^verbatim>\<open>def g(x): a = x(); return y\<close> references the free
  variable \<open>y\<close>, and with the resolver that knows no name its compilation fails, but with
  the error of calling the graph value \<open>x\<close>, which comes first, not with an
  \<open>UnresolvedNameError\<close> for \<open>y\<close>.
\<close>

theorem unresolved_name_not_first_error:
  "free_refs_def example_g = [(SourceRange 26 27, ''y'')] \<and>
   compileFunction example_attr example_g absent_resolver
     = Inl (ErrorReport (SourceRange 14 17) ''cannot call a value'') \<and>
   compileFunction example_attr example_g absent_resolver
     \<noteq> Inl (UnresolvedNameError ''y'' (SourceRange 26 27))"
  by (simp add: free_refs_def_def compileFunction_def run_defs example_g_def)

text \<open>
  C6, amended. With the resolver that knows no name, the compilation of a definition that
  references a free variable always fails. Either the failure came before the resolver
  was invoked at all (an error of an earlier construct), or the resolver was invoked
  exactly once, with the name of the first free reference in lowering order, and the error
  is the \<open>UnresolvedNameError\<close> with that name and the location of that reference.
\<close>

theorem absent_resolver_first_free_name:
  assumes "free_refs_def d = (loc, name) # rest"
  shows "\<exists>err env. lowerDef sa absent_resolver self d = (Inl err, env) \<and>
           (resolver_calls env = [] \<or>
            resolver_calls env = [name] \<and> err = UnresolvedNameError name loc)"
proof -
  let ?start = "startEnvironment sa self (def_params d)"
  obtain res env1 where
    body: "emitStatements sa absent_resolver (def_body d) ?start = (res, env1)"
    by (cases "emitStatements sa absent_resolver (def_body d) ?start")
  have refs: "free_refs_body (bound_names ?start) (def_body d) (def_returns d) = (loc, name) # rest"
    using assms by (simp add: free_refs_def_def startEnvironment_bound_names)
  note start = startEnvironment_resolver_calls [of sa self "def_params d"]
  from emitStatements_absent [OF body, of "def_returns d"] show ?thesis
  proof
    assume run: "absent_run (free_refs_body (bound_names ?start) (def_body d) (def_returns d))
                   ?start res env1"
    show ?thesis
    proof (cases res)
      case None
      with run refs show ?thesis by (simp add: absent_run_def)
    next
      case (Some err)
      with run refs start body show ?thesis
        by (auto simp: absent_run_def first_free_reported_def lowerDef_def)
    qed
  next
    assume ok: "res = None \<and> resolver_calls env1 = resolver_calls ?start \<and>
      free_refs_body (bound_names ?start) (def_body d) (def_returns d)
        = concat (map (free_refs (bound_names env1)) (def_returns d))"
    obtain res2 env2 where rets: "emitValues sa absent_resolver (def_returns d) env1 = (res2, env2)"
      by (cases "emitValues sa absent_resolver (def_returns d) env1")
    have run: "absent_run ((loc, name) # rest) env1 (error_of res2) env2"
      using emit_absent(3) [of env1 "def_returns d" sa] rets ok refs by simp
    show ?thesis
    proof (cases res2)
      case (Inr vs)
      with run show ?thesis by (simp add: absent_run_def)
    next
      case (Inl err)
      with run ok start body rets show ?thesis
        by (auto simp: absent_run_def first_free_reported_def lowerDef_def)
    qed
  qed
qed

theorem absent_resolver_first_free_name_witness:
  "free_refs_def example_h = [(SourceRange 17 18, ''y'')] \<and>
   lowerDef example_attr absent_resolver None example_h
     = (Inl (UnresolvedNameError ''y'' (SourceRange 17 18)),
        (startEnvironment example_attr None (def_params example_h))\<lparr>resolver_calls := [''y'']\<rparr>)"
  using absent_resolver_first_free_name
    [of example_h "SourceRange 17 18" "''y''" "[]" example_attr None]
  by (simp add: free_refs_def_def run_defs example_h_def)

end
